theory Spec2Isabelle
  imports Complex_Main
begin

section \<open>Data model of \<^verbatim>\<open>scripts/post_to_telegram.py\<close>\<close>

text \<open>
  A Python \<^verbatim>\<open>str\<close> is a sequence of Unicode code points and \<^verbatim>\<open>len\<close> counts code
  points, so a string is a list of code points. ASCII literals of the source are written
  through \<open>u\<close>.
\<close>

type_synonym ustring = "nat list"

definition u :: "string \<Rightarrow> ustring" where
  "u s = map of_char s"

text \<open>
  A decoded JSON document, as \<^verbatim>\<open>json.load\<close> and \<^verbatim>\<open>Response.json\<close> return it. A \<^verbatim>\<open>dict\<close>
  is an association list in insertion order (the order \<^verbatim>\<open>dict.values()\<close> iterates in);
  a \<^verbatim>\<open>float\<close> is its rational value or one of the three non-finite values.
\<close>

datatype pyfloat = Finite rat | PosInf | NegInf | NaN

datatype json =
    JNull
  | JBool bool
  | JInt int
  | JFloat pyfloat
  | JStr ustring
  | JList "json list"
  | JObj "(ustring \<times> json) list"

datatype py_error =
    AttributeError
  | TypeError
  | ValueError
  | OverflowError
  | IndexError
  | OSError
  | JSONDecodeError
  | Unmodelled

text \<open>
  A \<^verbatim>\<open>datetime\<close>: the wall-clock fields as microseconds since 1970-01-01T00:00:00, and
  the UTC offset of its \<^verbatim>\<open>tzinfo\<close> in microseconds (\<open>None\<close> for a naive value).
\<close>

record datetime =
  wall :: int
  utcoff :: "int option"

datatype request = SendPhoto json ustring | SendMessage ustring

text \<open>
  Everything the script reads from outside itself: the library functions it calls
  (\<^verbatim>\<open>dateutil.parser.parse\<close>, \<^verbatim>\<open>int\<close> on a string, \<^verbatim>\<open>str\<close> of a value that is not a
  string, \<^verbatim>\<open>json.dumps\<close>, \<^verbatim>\<open>json.loads\<close>), the clock, the configuration, the feed's
  answer and the Telegram gateway. A library call that raises is \<open>None\<close>. The run is
  taken to happen at one instant: every \<^verbatim>\<open>datetime.now(timezone.utc)\<close> is \<open>now\<close>
  (microseconds since the epoch) and its \<^verbatim>\<open>isoformat()\<close> is \<open>now_iso\<close>.
\<close>

record env =
  date_parse :: "ustring \<Rightarrow> datetime option"
  int_of_str :: "ustring \<Rightarrow> int option"
  str_of :: "json \<Rightarrow> ustring"
  json_dumps :: "json \<Rightarrow> ustring"
  json_loads :: "ustring \<Rightarrow> json option"
  now :: int
  now_iso :: ustring
  STATE_FILE :: ustring
  TELEGRAM_BOT_TOKEN :: "ustring option"
  TELEGRAM_CHAT_ID :: "ustring option"
  api_response :: "json option"
  telegram :: "request \<Rightarrow> json option"
  writable :: "ustring \<Rightarrow> bool"

definition TELEGRAM_CAPTION_MAX :: nat where
  "TELEGRAM_CAPTION_MAX = 1000"

section \<open>Python built-ins used by the script\<close>

text \<open>Truth value testing: \<^verbatim>\<open>if x\<close>, \<^verbatim>\<open>not x\<close>, \<^verbatim>\<open>x or y\<close>.\<close>

fun truthy :: "json \<Rightarrow> bool" where
  "truthy JNull = False"
| "truthy (JBool b) = b"
| "truthy (JInt n) = (n \<noteq> 0)"
| "truthy (JFloat f) = (f \<noteq> Finite 0)"
| "truthy (JStr s) = (s \<noteq> [])"
| "truthy (JList xs) = (xs \<noteq> [])"
| "truthy (JObj d) = (d \<noteq> [])"

definition py_or :: "json \<Rightarrow> json \<Rightarrow> json" where
  "py_or a b = (if truthy a then a else b)"

text \<open>\<^verbatim>\<open>d.get(k, default)\<close> on a \<^verbatim>\<open>dict\<close>; \<^verbatim>\<open>x.get(k, default)\<close> on any value.\<close>

definition dict_get :: "(ustring \<times> json) list \<Rightarrow> ustring \<Rightarrow> json \<Rightarrow> json" where
  "dict_get d k dflt = (case map_of d k of None \<Rightarrow> dflt | Some v \<Rightarrow> v)"

fun py_get :: "json \<Rightarrow> ustring \<Rightarrow> json \<Rightarrow> py_error + json" where
  "py_get (JObj d) k dflt = Inr (dict_get d k dflt)"
| "py_get _ k dflt = Inl AttributeError"

text \<open>\<^verbatim>\<open>d[k] = v\<close>: an existing key keeps its place, a new key goes last.\<close>

fun dict_set :: "(ustring \<times> json) list \<Rightarrow> ustring \<Rightarrow> json \<Rightarrow> (ustring \<times> json) list" where
  "dict_set [] k v = [(k, v)]"
| "dict_set ((k', v') # d) k v =
     (if k' = k then (k, v) # d else (k', v') # dict_set d k v)"

text \<open>\<^verbatim>\<open>int(x)\<close>: a float is truncated towards zero, a string goes to the parser.\<close>

fun py_int :: "env \<Rightarrow> json \<Rightarrow> py_error + int" where
  "py_int e (JInt n) = Inr n"
| "py_int e (JBool b) = Inr (if b then 1 else 0)"
| "py_int e (JFloat (Finite r)) = Inr (if 0 \<le> r then \<lfloor>r\<rfloor> else \<lceil>r\<rceil>)"
| "py_int e (JFloat NaN) = Inl ValueError"
| "py_int e (JFloat _) = Inl OverflowError"
| "py_int e (JStr s) = (case int_of_str e s of None \<Rightarrow> Inl ValueError | Some n \<Rightarrow> Inr n)"
| "py_int e _ = Inl TypeError"

text \<open>\<^verbatim>\<open>date_parser.parse(x)\<close>: anything but a string raises \<^verbatim>\<open>TypeError\<close>.\<close>

fun parse :: "env \<Rightarrow> json \<Rightarrow> py_error + datetime" where
  "parse e (JStr s) = (case date_parse e s of None \<Rightarrow> Inl ValueError | Some dt \<Rightarrow> Inr dt)"
| "parse e _ = Inl TypeError"

text \<open>The instant of an aware \<^verbatim>\<open>datetime\<close>, and of a naive one read as UTC.\<close>

definition instant :: "datetime \<Rightarrow> int" where
  "instant dt = (case utcoff dt of None \<Rightarrow> wall dt | Some off \<Rightarrow> wall dt - off)"

section \<open>The eligibility filter\<close>

text \<open>
  The body of the \<^verbatim>\<open>try\<close> block of \<^verbatim>\<open>is_valid_coupon\<close>, every exception a value.
  \<^verbatim>\<open>dt.replace(tzinfo=timezone.utc)\<close> gives a naive value the offset 0, after which the
  comparison with the aware \<^verbatim>\<open>datetime.now(timezone.utc)\<close> compares instants.
\<close>

definition is_valid_coupon_body :: "env \<Rightarrow> json \<Rightarrow> py_error + bool" where
  "is_valid_coupon_body e coupon =
     (case py_get coupon (u ''is_visible'') (JInt 0) of
        Inl err \<Rightarrow> Inl err
      | Inr vis \<Rightarrow>
          (case py_int e vis of
             Inl err \<Rightarrow> Inl err
           | Inr n \<Rightarrow>
               if n \<noteq> 1 then Inr False
               else
                 (case py_get coupon (u ''expires_at'') JNull of
                    Inl err \<Rightarrow> Inl err
                  | Inr expires \<Rightarrow>
                      if \<not> truthy expires then Inr True
                      else
                        (case parse e expires of
                           Inl err \<Rightarrow> Inl err
                         | Inr dt0 \<Rightarrow>
                             let dt = (if utcoff dt0 = None then dt0\<lparr>utcoff := Some 0\<rparr> else dt0)
                             in Inr (now e < instant dt)))))"

text \<open>\<^verbatim>\<open>except Exception\<close>: the reason is printed and the coupon is invalid.\<close>

definition is_valid_coupon :: "env \<Rightarrow> json \<Rightarrow> bool" where
  "is_valid_coupon e coupon =
     (case is_valid_coupon_body e coupon of Inl err \<Rightarrow> False | Inr b \<Rightarrow> b)"

section \<open>The feed normalizer\<close>

text \<open>The \<^verbatim>\<open>for v in data.values()\<close> loop: the first value that is a \<^verbatim>\<open>list\<close>.\<close>

fun first_list :: "(ustring \<times> json) list \<Rightarrow> json list option" where
  "first_list [] = None"
| "first_list ((k, JList xs) # d) = Some xs"
| "first_list ((k, v) # d) = first_list d"

text \<open>The normalisation of the decoded body inside \<^verbatim>\<open>fetch_coupons\<close>.\<close>

fun normalize :: "json \<Rightarrow> json list" where
  "normalize (JObj d) =
     (case map_of d (u ''data'') of
        Some (JList xs) \<Rightarrow> xs
      | _ \<Rightarrow> (case first_list d of Some xs \<Rightarrow> xs | None \<Rightarrow> []))"
| "normalize (JList xs) = xs"
| "normalize _ = []"

text \<open>
  \<^verbatim>\<open>fetch_coupons\<close>: \<open>api_response\<close> is \<open>None\<close> when the request, the status check or
  the decoding raised, which the \<^verbatim>\<open>except\<close> clause turns into the empty list.
\<close>

definition fetch_coupons :: "env \<Rightarrow> json list" where
  "fetch_coupons e = (case api_response e of None \<Rightarrow> [] | Some data \<Rightarrow> normalize data)"

section \<open>The caption formatter\<close>

text \<open>The code points that \<^verbatim>\<open>str.strip()\<close> removes (\<^verbatim>\<open>str.isspace\<close>).\<close>

definition is_space :: "nat \<Rightarrow> bool" where
  "is_space c \<longleftrightarrow>
     (9 \<le> c \<and> c \<le> 13) \<or> (28 \<le> c \<and> c \<le> 32) \<or> c = 133 \<or> c = 160 \<or> c = 5760 \<or>
     (8192 \<le> c \<and> c \<le> 8202) \<or> c = 8232 \<or> c = 8233 \<or> c = 8239 \<or> c = 8287 \<or> c = 12288"

definition strip :: "ustring \<Rightarrow> ustring" where
  "strip s = rev (dropWhile is_space (rev (dropWhile is_space s)))"

text \<open>\<^verbatim>\<open>"\n".join(parts)\<close>.\<close>

fun join_lines :: "ustring list \<Rightarrow> ustring" where
  "join_lines [] = []"
| "join_lines [p] = p"
| "join_lines (p # q # ps) = p @ [10] @ join_lines (q # ps)"

text \<open>The replacement field of an f-string: a string as it is, anything else through \<^verbatim>\<open>str\<close>.\<close>

fun fmt :: "env \<Rightarrow> json \<Rightarrow> ustring" where
  "fmt e (JStr s) = s"
| "fmt e v = str_of e v"

text \<open>
  One field of the caption: \<^verbatim>\<open>x = c.get(k) or ""\<close>, then, if \<^verbatim>\<open>x\<close> is true, the line
  with its prefix and an empty line.
\<close>

definition caption_field :: "env \<Rightarrow> (ustring \<times> json) list \<Rightarrow> ustring \<Rightarrow> ustring \<Rightarrow> ustring list" where
  "caption_field e d k prefix =
     (let x = py_or (dict_get d k JNull) (JStr [])
      in if truthy x then [prefix @ fmt e x, []] else [])"

text \<open>The literal prefixes and the footer, as code points.\<close>

definition title_prefix :: ustring where
  "title_prefix = [127881, 32]"

definition discount_prefix :: ustring where
  "discount_prefix = [128293, 32]"

definition code_prefix :: ustring where
  "code_prefix = [127873, 32, 1575, 1604, 1603, 1608, 1576, 1608, 1606, 32, 58, 32]"

definition countries_prefix :: ustring where
  "countries_prefix = [127757, 32, 1589, 1575, 1604, 1581, 32, 1604, 1600, 32, 58, 32]"

definition note_prefix :: ustring where
  "note_prefix = [128204, 32, 1605, 1604, 1575, 1581, 1592, 1577, 32, 58, 32]"

definition expires_prefix :: ustring where
  "expires_prefix = [9203, 32, 1610, 1606, 1578, 1607, 1610, 32, 1601, 1610, 32, 58, 32]"

definition link_prefix :: ustring where
  "link_prefix =
     [128722, 32, 1585, 1575, 1576, 1591, 32, 1575, 1604, 1588, 1585, 1575, 1569, 32, 58, 32]"

definition footer :: "ustring list" where
  "footer =
     [[128142, 32, 1604, 1605, 1586, 1610, 1583, 32, 1605, 1606, 32, 1575, 1604, 1603, 1608,
       1576, 1608, 1606, 1575, 1578, 32, 1586, 1608, 1585, 1608, 1575, 32, 1605, 1608, 1602,
       1593, 1606, 1575, 32, 58],
      [],
      32 # u ''https://receivecoupons.com/'']"

text \<open>The list \<^verbatim>\<open>parts\<close> of \<^verbatim>\<open>make_caption\<close> for a \<^verbatim>\<open>dict\<close>.\<close>

definition parts :: "env \<Rightarrow> (ustring \<times> json) list \<Rightarrow> ustring list" where
  "parts e d =
     caption_field e d (u ''title'') title_prefix @
     caption_field e d (u ''discount_text'') discount_prefix @
     caption_field e d (u ''code'') code_prefix @
     caption_field e d (u ''countries'') countries_prefix @
     caption_field e d (u ''note'') note_prefix @
     caption_field e d (u ''expires_at'') expires_prefix @
     caption_field e d (u ''purchase_link'') link_prefix @
     footer"

text \<open>The truncation at the end of \<^verbatim>\<open>make_caption\<close>.\<close>

definition truncate :: "ustring \<Rightarrow> ustring" where
  "truncate caption =
     (if length caption > TELEGRAM_CAPTION_MAX
      then take (TELEGRAM_CAPTION_MAX - 3) caption @ u ''...''
      else caption)"

text \<open>\<^verbatim>\<open>make_caption\<close>: \<^verbatim>\<open>c.get\<close> raises on anything that is not a \<^verbatim>\<open>dict\<close>.\<close>

fun make_caption :: "env \<Rightarrow> json \<Rightarrow> py_error + ustring" where
  "make_caption e (JObj d) = Inr (truncate (strip (join_lines (parts e d))))"
| "make_caption e _ = Inl AttributeError"

section \<open>The publication tracker\<close>

text \<open>The files the script can see: the text of every path that exists.\<close>

type_synonym files = "ustring \<rightharpoonup> ustring"

definition fresh_state :: json where
  "fresh_state = JObj [(u ''published_ids'', JList []), (u ''last_run'', JNull)]"

text \<open>\<^verbatim>\<open>load_state\<close>: \<^verbatim>\<open>json.load\<close> raises on a text that does not decode.\<close>

definition load_state :: "env \<Rightarrow> files \<Rightarrow> ustring \<Rightarrow> py_error + json" where
  "load_state e fs path =
     (case fs path of
        None \<Rightarrow> Inr fresh_state
      | Some text \<Rightarrow>
          (case json_loads e text of None \<Rightarrow> Inl JSONDecodeError | Some state \<Rightarrow> Inr state))"

text \<open>\<^verbatim>\<open>save_state\<close>: \<^verbatim>\<open>open(path, "w")\<close> raises where the path cannot be written.\<close>

definition save_state :: "env \<Rightarrow> files \<Rightarrow> ustring \<Rightarrow> json \<Rightarrow> py_error + files" where
  "save_state e fs path state =
     (if writable e path then Inr (fs(path \<mapsto> json_dumps e state)) else Inl OSError)"

text \<open>\<^verbatim>\<open>x[k] = v\<close>.\<close>

fun set_item :: "json \<Rightarrow> ustring \<Rightarrow> json \<Rightarrow> py_error + json" where
  "set_item (JObj d) k v = Inr (JObj (dict_set d k v))"
| "set_item _ k v = Inl TypeError"

text \<open>
  \<^verbatim>\<open>set(state.get("published_ids", []))\<close>. The model covers the state the script itself
  writes, a list of integers; a value that cannot be iterated raises, and every other
  shape (strings, mixed lists) is outside the model.
\<close>

fun int_items :: "json list \<Rightarrow> int list option" where
  "int_items [] = Some []"
| "int_items (JInt n # xs) = map_option ((#) n) (int_items xs)"
| "int_items (_ # xs) = None"

fun py_set :: "json \<Rightarrow> py_error + int set" where
  "py_set (JList xs) = (case int_items xs of None \<Rightarrow> Inl Unmodelled | Some ns \<Rightarrow> Inr (set ns))"
| "py_set (JStr s) = Inl Unmodelled"
| "py_set (JObj d) = Inl Unmodelled"
| "py_set _ = Inl TypeError"

definition published_of :: "json \<Rightarrow> py_error + int set" where
  "published_of state =
     (case py_get state (u ''published_ids'') (JList []) of
        Inl err \<Rightarrow> Inl err
      | Inr v \<Rightarrow> py_set v)"

section \<open>The selection engine\<close>

text \<open>
  The nested \<^verbatim>\<open>sort_key\<close> of \<^verbatim>\<open>main\<close>: the bare \<^verbatim>\<open>except\<close> turns every exception
  into the aware \<^verbatim>\<open>datetime.now(timezone.utc)\<close>.
\<close>

definition sort_key_body :: "env \<Rightarrow> json \<Rightarrow> py_error + datetime" where
  "sort_key_body e c =
     (case py_get c (u ''created_at'') JNull of
        Inl err \<Rightarrow> Inl err
      | Inr created \<Rightarrow>
          if truthy created then parse e created
          else
            (case py_get c (u ''expires_at'') JNull of
               Inl err \<Rightarrow> Inl err
             | Inr expires \<Rightarrow> parse e (py_or expires (JStr (u ''1970-01-01'')))))"

definition sort_key_coupon :: "env \<Rightarrow> json \<Rightarrow> datetime" where
  "sort_key_coupon e c =
     (case sort_key_body e c of
        Inl err \<Rightarrow> \<lparr>wall = now e, utcoff = Some 0\<rparr>
      | Inr dt \<Rightarrow> dt)"

text \<open>
  \<^verbatim>\<open>sorted(valid, key=sort_key)\<close>. Comparing a naive with an aware \<^verbatim>\<open>datetime\<close> raises
  \<^verbatim>\<open>TypeError\<close>, and a comparison sort of keys of both kinds has to make such a
  comparison. Keys of one kind are compared by their instants, and the sort is stable.
\<close>

definition naive :: "datetime \<Rightarrow> bool" where
  "naive dt \<longleftrightarrow> utcoff dt = None"

definition py_sorted :: "env \<Rightarrow> json list \<Rightarrow> py_error + json list" where
  "py_sorted e cs =
     (let ks = map (sort_key_coupon e) cs
      in if list_ex naive ks \<and> list_ex (\<lambda>k. \<not> naive k) ks then Inl TypeError
         else Inr (sort_key (\<lambda>c. instant (sort_key_coupon e c)) cs))"

text \<open>\<^verbatim>\<open>int(c.get("coupon_id") or c.get("id") or 0)\<close>.\<close>

definition coupon_id :: "env \<Rightarrow> json \<Rightarrow> py_error + int" where
  "coupon_id e c =
     (case py_get c (u ''coupon_id'') JNull of
        Inl err \<Rightarrow> Inl err
      | Inr a \<Rightarrow>
          if truthy a then py_int e a
          else
            (case py_get c (u ''id'') JNull of
               Inl err \<Rightarrow> Inl err
             | Inr b \<Rightarrow> py_int e (py_or b (JInt 0))))"

text \<open>The loop that looks for the next coupon not yet posted.\<close>

fun find_next :: "env \<Rightarrow> int set \<Rightarrow> json list \<Rightarrow> py_error + json option" where
  "find_next e published_ids [] = Inr None"
| "find_next e published_ids (c # cs) =
     (case coupon_id e c of
        Inl err \<Rightarrow> Inl err
      | Inr cid \<Rightarrow> if cid \<notin> published_ids then Inr (Some c) else find_next e published_ids cs)"

text \<open>
  The first half of \<^verbatim>\<open>main\<close>, from the loaded state to the coupon to post: either the
  run ends with nothing to do, or a coupon is chosen together with the set
  \<^verbatim>\<open>published_ids\<close> and the dictionary \<^verbatim>\<open>state\<close> as they are in memory at that point.
\<close>

datatype choice = NoOp | Chosen json "int set" json

definition select_coupon :: "env \<Rightarrow> json \<Rightarrow> py_error + choice" where
  "select_coupon e state =
     (case published_of state of
        Inl err \<Rightarrow> Inl err
      | Inr published_ids \<Rightarrow>
          (let coupons = fetch_coupons e in
           if coupons = [] then Inr NoOp
           else
             (let valid = filter (is_valid_coupon e) coupons in
              if valid = [] then Inr NoOp
              else
                (case py_sorted e valid of
                   Inl err \<Rightarrow> Inl err
                 | Inr valid_sorted \<Rightarrow>
                     (case find_next e published_ids valid_sorted of
                        Inl err \<Rightarrow> Inl err
                      | Inr (Some next_coupon) \<Rightarrow>
                          (if truthy next_coupon
                           then Inr (Chosen next_coupon published_ids state)
                           else Inr NoOp)
                      | Inr None \<Rightarrow>
                          (case set_item state (u ''published_ids'') (JList []) of
                             Inl err \<Rightarrow> Inl err
                           | Inr state' \<Rightarrow>
                               (case valid_sorted of
                                  [] \<Rightarrow> Inl IndexError
                                | next_coupon # _ \<Rightarrow>
                                    (if truthy next_coupon
                                     then Inr (Chosen next_coupon {} state')
                                     else Inr NoOp))))))))"

section \<open>Delivery and recording\<close>

text \<open>
  \<^verbatim>\<open>next_coupon.get("store", {}).get("logo_url") or next_coupon.get("logo_url") or ""\<close>.
\<close>

definition photo_url_of :: "json \<Rightarrow> py_error + json" where
  "photo_url_of c =
     (case py_get c (u ''store'') (JObj []) of
        Inl err \<Rightarrow> Inl err
      | Inr store \<Rightarrow>
          (case py_get store (u ''logo_url'') JNull of
             Inl err \<Rightarrow> Inl err
           | Inr a \<Rightarrow>
               if truthy a then Inr a
               else
                 (case py_get c (u ''logo_url'') JNull of
                    Inl err \<Rightarrow> Inl err
                  | Inr b \<Rightarrow> Inr (py_or b (JStr [])))))"

text \<open>
  \<^verbatim>\<open>post_to_telegram_photo\<close>: the \<^verbatim>\<open>sendPhoto\<close> request; the gateway's \<open>None\<close> is the
  \<^verbatim>\<open>None\<close> of the \<^verbatim>\<open>except\<close> clause.
\<close>

definition post_to_telegram_photo :: "env \<Rightarrow> json \<Rightarrow> ustring \<Rightarrow> json option" where
  "post_to_telegram_photo e photo_url caption_html = telegram e (SendPhoto photo_url caption_html)"

text \<open>
  The value of \<^verbatim>\<open>resp\<close> in \<^verbatim>\<open>main\<close>: \<^verbatim>\<open>sendPhoto\<close> when there is a photo,
  \<^verbatim>\<open>sendMessage\<close> otherwise.
\<close>

definition post :: "env \<Rightarrow> json \<Rightarrow> ustring \<Rightarrow> json option" where
  "post e photo_url caption =
     (if truthy photo_url then post_to_telegram_photo e photo_url caption
      else telegram e (SendMessage caption))"

text \<open>The condition \<^verbatim>\<open>resp and resp.get("ok")\<close>.\<close>

definition resp_ok :: "json option \<Rightarrow> py_error + bool" where
  "resp_ok resp =
     (case resp of
        None \<Rightarrow> Inr False
      | Some r \<Rightarrow>
          if \<not> truthy r then Inr False
          else
            (case py_get r (u ''ok'') JNull of
               Inl err \<Rightarrow> Inl err
             | Inr v \<Rightarrow> Inr (truthy v)))"

text \<open>
  The body of the \<^verbatim>\<open>try\<close> block after a confirmed post. \<^verbatim>\<open>git_commit_and_push\<close>
  does not touch the state file, and its failure is only printed.
\<close>

definition record_post :: "env \<Rightarrow> files \<Rightarrow> json \<Rightarrow> int set \<Rightarrow> json \<Rightarrow> py_error + files" where
  "record_post e fs next_coupon published_ids state =
     (case coupon_id e next_coupon of
        Inl err \<Rightarrow> Inl err
      | Inr cid \<Rightarrow>
          (case set_item state (u ''published_ids'')
                  (JList (map JInt (sorted_list_of_set (insert cid published_ids)))) of
             Inl err \<Rightarrow> Inl err
           | Inr state1 \<Rightarrow>
               (case set_item state1 (u ''last_run'') (JStr (now_iso e)) of
                  Inl err \<Rightarrow> Inl err
                | Inr state2 \<Rightarrow> save_state e fs (STATE_FILE e) state2)))"

text \<open>
  How the process ends: \<^verbatim>\<open>sys.exit(n)\<close> or the end of the script (status 0), or an
  exception nobody catches, which ends the interpreter with status 1.
\<close>

datatype exit_status = Exit int | Uncaught py_error

fun exit_code :: "exit_status \<Rightarrow> int" where
  "exit_code (Exit n) = n"
| "exit_code (Uncaught err) = 1"

text \<open>The second half of \<^verbatim>\<open>main\<close>, from the chosen coupon to the end of the run.\<close>

definition deliver :: "env \<Rightarrow> files \<Rightarrow> json \<Rightarrow> int set \<Rightarrow> json \<Rightarrow> files \<times> exit_status" where
  "deliver e fs next_coupon published_ids state =
     (case photo_url_of next_coupon of
        Inl err \<Rightarrow> (fs, Uncaught err)
      | Inr photo_url \<Rightarrow>
          (case make_caption e next_coupon of
             Inl err \<Rightarrow> (fs, Uncaught err)
           | Inr caption \<Rightarrow>
               (case resp_ok (post e photo_url caption) of
                  Inl err \<Rightarrow> (fs, Uncaught err)
                | Inr ok \<Rightarrow>
                    if ok then
                      (case record_post e fs next_coupon published_ids state of
                         Inl err \<Rightarrow> (fs, Exit 0)
                       | Inr fs' \<Rightarrow> (fs', Exit 0))
                    else (fs, Exit 1))))"

definition main :: "env \<Rightarrow> files \<Rightarrow> files \<times> exit_status" where
  "main e fs =
     (case load_state e fs (STATE_FILE e) of
        Inl err \<Rightarrow> (fs, Uncaught err)
      | Inr state \<Rightarrow>
          (case select_coupon e state of
             Inl err \<Rightarrow> (fs, Uncaught err)
           | Inr NoOp \<Rightarrow> (fs, Exit 0)
           | Inr (Chosen next_coupon published_ids state') \<Rightarrow>
               deliver e fs next_coupon published_ids state'))"

text \<open>The script: the check of the configuration at import time, then \<^verbatim>\<open>main\<close>.\<close>

definition missing :: "ustring option \<Rightarrow> bool" where
  "missing v \<longleftrightarrow> v = None \<or> v = Some []"

definition script :: "env \<Rightarrow> files \<Rightarrow> files \<times> exit_status" where
  "script e fs =
     (if missing (TELEGRAM_BOT_TOKEN e) \<or> missing (TELEGRAM_CHAT_ID e) then (fs, Exit 2)
      else main e fs)"

section \<open>Notions of the specification\<close>

text \<open>\<^verbatim>\<open>isinstance(v, list)\<close>: the value is a sequence.\<close>

fun is_list :: "json \<Rightarrow> bool" where
  "is_list (JList xs) = True"
| "is_list _ = False"


text \<open>The coupon a selection picked, without the state it leaves in memory.\<close>

fun selected :: "py_error + choice \<Rightarrow> py_error + json option" where
  "selected (Inl err) = Inl err"
| "selected (Inr NoOp) = Inr None"
| "selected (Inr (Chosen c published_ids state)) = Inr (Some c)"

text \<open>
  The Delivery Gateway confirms the post of a coupon: the request could be built and its
  answer is a dictionary with a true \<^verbatim>\<open>ok\<close>.
\<close>

definition confirmed :: "env \<Rightarrow> json \<Rightarrow> bool" where
  "confirmed e c =
     (case photo_url_of c of
        Inl err \<Rightarrow> False
      | Inr photo_url \<Rightarrow>
          (case make_caption e c of
             Inl err \<Rightarrow> False
           | Inr caption \<Rightarrow>
               (case post e photo_url caption of
                  Some (JObj d) \<Rightarrow> truthy (dict_get d (u ''ok'') JNull)
                | _ \<Rightarrow> False)))"

section \<open>Concrete inputs\<close>

text \<open>
  An environment for the examples: of the date parser only the three strings the
  examples use (all three without a timezone, so naive), of the JSON codec only the two
  documents the examples store; the clock stands at 2024-01-01T00:00:00Z, the feed does
  not answer and the gateway fails, unless an example says otherwise.
\<close>

definition state_12 :: json where
  "state_12 =
     JObj [(u ''published_ids'', JList [JInt 1, JInt 2]),
           (u ''last_run'', JStr (u ''2023-12-31T22:00:00+00:00''))]"

definition state_12_text :: ustring where
  \<open>state_12_text =
     join_lines
       [u ''{'',
        u ''  "published_ids": ['',
        u ''    1,'',
        u ''    2'',
        u ''  ],'',
        u ''  "last_run": "2023-12-31T22:00:00+00:00"'',
        u ''}'']\<close>

definition state_1 :: json where
  "state_1 =
     JObj [(u ''published_ids'', JList [JInt 1]),
           (u ''last_run'', JStr (u ''2024-01-01T00:00:00+00:00''))]"

definition state_1_text :: ustring where
  \<open>state_1_text =
     join_lines
       [u ''{'',
        u ''  "published_ids": ['',
        u ''    1'',
        u ''  ],'',
        u ''  "last_run": "2024-01-01T00:00:00+00:00"'',
        u ''}'']\<close>

definition demo_dumps :: "json \<Rightarrow> ustring" where
  "demo_dumps v =
     (if v = state_12 then state_12_text else if v = state_1 then state_1_text else [])"

definition demo_loads :: "ustring \<Rightarrow> json option" where
  "demo_loads s =
     (if s = state_12_text then Some state_12
      else if s = state_1_text then Some state_1
      else None)"

definition demo_parse :: "ustring \<Rightarrow> datetime option" where
  "demo_parse s =
     (if s = u ''1970-01-01'' then Some \<lparr>wall = 0, utcoff = None\<rparr>
      else if s = u ''2030-01-01'' then Some \<lparr>wall = 1893456000000000, utcoff = None\<rparr>
      else if s = u ''2040-01-01'' then Some \<lparr>wall = 2208988800000000, utcoff = None\<rparr>
      else None)"

definition demo_env :: env where
  "demo_env =
     \<lparr>date_parse = demo_parse,
      int_of_str = (\<lambda>s. None),
      str_of = (\<lambda>v. []),
      json_dumps = demo_dumps,
      json_loads = demo_loads,
      now = 1704067200000000,
      now_iso = u ''2024-01-01T00:00:00+00:00'',
      STATE_FILE = u ''state.json'',
      TELEGRAM_BOT_TOKEN = Some (u ''token''),
      TELEGRAM_CHAT_ID = Some (u ''@receivecoupons''),
      api_response = None,
      telegram = (\<lambda>r. None),
      writable = (\<lambda>p. True)\<rparr>"

definition coupon_a :: json where
  "coupon_a =
     JObj [(u ''id'', JInt 1), (u ''is_visible'', JInt 1),
           (u ''expires_at'', JStr (u ''2030-01-01''))]"

definition coupon_b :: json where
  "coupon_b =
     JObj [(u ''id'', JInt 2), (u ''is_visible'', JInt 1),
           (u ''expires_at'', JStr (u ''2040-01-01''))]"

definition coupon_1 :: json where
  "coupon_1 = JObj [(u ''id'', JInt 1), (u ''is_visible'', JInt 1), (u ''title'', JStr (u ''A''))]"

definition coupon_2 :: json where
  "coupon_2 = JObj [(u ''id'', JInt 2), (u ''is_visible'', JInt 1), (u ''title'', JStr (u ''B''))]"

definition coupon_bad :: json where
  "coupon_bad =
     JObj [(u ''id'', JInt 2), (u ''is_visible'', JInt 1),
           (u ''created_at'', JStr (u ''garbage''))]"

definition files_12 :: files where
  "files_12 = [u ''state.json'' \<mapsto> state_12_text]"

definition ack_ok :: json where
  "ack_ok = JObj [(u ''ok'', JBool True)]"

definition ack_failed :: json where
  "ack_failed = JObj [(u ''ok'', JBool False), (u ''error_code'', JInt 400)]"

text \<open>
  The runs of the examples: the feed lists coupons 1 and 2 while the state file holds
  both identifiers, with the gateway as a parameter (\<open>env_cycle\<close>); the feed lists two
  coupons with expiry dates (\<open>env_ab\<close>, and \<open>env_ab_later\<close> in 2035); the feed lists a
  coupon without dates and one with a malformed date (\<open>env_bad\<close>).
\<close>

definition env_cycle :: "(request \<Rightarrow> json option) \<Rightarrow> env" where
  "env_cycle gateway =
     demo_env\<lparr>api_response := Some (JObj [(u ''data'', JList [coupon_1, coupon_2])]),
              telegram := gateway\<rparr>"

definition env_ab :: env where
  "env_ab = demo_env\<lparr>api_response := Some (JList [coupon_a, coupon_b])\<rparr>"

definition env_bad :: env where
  "env_bad = demo_env\<lparr>api_response := Some (JList [coupon_1, coupon_bad])\<rparr>"

definition ack_empty :: json where
  "ack_empty = JObj [(u ''result'', JInt 7)]"

definition env_cycle_ok :: env where
  "env_cycle_ok = env_cycle (\<lambda>r. Some ack_ok)"

definition env_cycle_failed :: env where
  "env_cycle_failed = env_cycle (\<lambda>r. Some ack_failed)"

definition env_cycle_empty :: env where
  "env_cycle_empty = env_cycle (\<lambda>r. Some ack_empty)"

definition env_cycle_down :: env where
  "env_cycle_down = env_cycle (\<lambda>r. None)"

definition env_ab_later :: env where
  "env_ab_later = env_ab\<lparr>now := 2051222400000000\<rparr>"

definition env_ab_other :: env where
  "env_ab_other =
     env_ab\<lparr>telegram := (\<lambda>r. Some ack_ok), now_iso := u ''2024-01-01T02:00:00+00:00'',
            writable := (\<lambda>p. False)\<rparr>"

definition state_empty :: json where
  "state_empty =
     JObj [(u ''last_run'', JStr (u ''2023-12-31T22:00:00+00:00'')),
           (u ''published_ids'', JList [])]"

definition coupon_hidden :: json where
  "coupon_hidden = JObj [(u ''id'', JInt 3), (u ''is_visible'', JInt 0)]"

definition coupon_soon :: json where
  "coupon_soon =
     JObj [(u ''is_visible'', JInt 1), (u ''expires_at'', JStr (u ''soon''))]"

definition state_reset :: json where
  "state_reset =
     JObj [(u ''published_ids'', JList []),
           (u ''last_run'', JStr (u ''2023-12-31T22:00:00+00:00''))]"

definition coupon_long :: json where
  "coupon_long = JObj [(u ''title'', JStr (replicate 2000 65))]"

section \<open>Properties\<close>

lemma u_eq_iff [simp]: "u a = u b \<longleftrightarrow> a = b"
  unfolding u_def by (simp add: inj_map_eq_map inj_on_def)

lemma instant_utc [simp]:
  "instant (if utcoff dt = None then dt\<lparr>utcoff := Some 0\<rparr> else dt) = instant dt"
  by (simp add: instant_def)

lemma u_Nil_iff [simp]: "u s = [] \<longleftrightarrow> s = []"
  by (simp add: u_def)

subsection \<open>Dictionaries and sets of identifiers\<close>

lemma map_of_dict_set: "map_of (dict_set d k v) = (map_of d)(k \<mapsto> v)"
  by (induction d k v rule: dict_set.induct) auto

lemma dict_get_dict_set:
  "dict_get (dict_set d k v) k' dflt = (if k' = k then v else dict_get d k' dflt)"
  by (simp add: dict_get_def map_of_dict_set)




lemma published_of_JObj: "published_of state = Inr P \<Longrightarrow> \<exists>d. state = JObj d"
  by (cases state) (simp_all add: published_of_def)

subsection \<open>The selection engine, step by step\<close>

lemma is_valid_coupon_truthy: "is_valid_coupon e c \<Longrightarrow> truthy c"
  by (cases c; cases "case c of JObj d \<Rightarrow> d")
     (auto simp: is_valid_coupon_def is_valid_coupon_body_def dict_get_def
           split: sum.splits if_splits)

lemma py_sorted_set: "py_sorted e cs = Inr ys \<Longrightarrow> set ys = set cs"
  by (auto simp: py_sorted_def Let_def split: if_splits)

lemma py_sorted_Nil: "py_sorted e [] = Inr []"
  by (simp add: py_sorted_def)

lemma py_sorted_mixed:
  assumes "c1 \<in> set cs" "c2 \<in> set cs"
    and "naive (sort_key_coupon e c1)" "\<not> naive (sort_key_coupon e c2)"
  shows "py_sorted e cs = Inl TypeError"
  using assms by (auto simp: py_sorted_def list_ex_iff)

lemma find_next_all_published:
  "\<forall>x\<in>set cs. \<exists>cid. coupon_id e x = Inr cid \<and> cid \<in> P \<Longrightarrow> find_next e P cs = Inr None"
  by (induction cs) auto


lemma select_coupon_reset:
  assumes pub: "published_of state = Inr P"
    and srt: "py_sorted e (filter (is_valid_coupon e) (fetch_coupons e)) = Inr (c # cs)"
    and all: "\<forall>x\<in>set (c # cs). \<exists>cid. coupon_id e x = Inr cid \<and> cid \<in> P"
  shows "\<exists>d. state = JObj d \<and>
           select_coupon e state =
             Inr (Chosen c {} (JObj (dict_set d (u ''published_ids'') (JList []))))"
proof -
  from pub obtain d where d: "state = JObj d"
    by (auto dest: published_of_JObj)
  have valid: "filter (is_valid_coupon e) (fetch_coupons e) \<noteq> []"
    using srt by (auto simp: py_sorted_Nil)
  then have feed: "fetch_coupons e \<noteq> []"
    by auto
  have "c \<in> set (filter (is_valid_coupon e) (fetch_coupons e))"
    using py_sorted_set [OF srt] by auto
  then have c: "truthy c"
    by (auto intro: is_valid_coupon_truthy)
  have "find_next e P (c # cs) = Inr None"
    using all by (rule find_next_all_published)
  with pub srt valid feed c d show ?thesis
    by (simp add: select_coupon_def)
qed

subsection \<open>Delivery, step by step\<close>

lemma resp_ok_True:
  "resp_ok r = Inr True \<longleftrightarrow> (\<exists>d. r = Some (JObj d) \<and> truthy (dict_get d (u ''ok'') JNull))"
  by (cases r; cases "the r") (auto simp: resp_ok_def dict_get_def split: if_splits)

lemma confirmed_iff:
  "confirmed e c \<longleftrightarrow>
     (\<exists>photo caption. photo_url_of c = Inr photo \<and> make_caption e c = Inr caption \<and>
        resp_ok (post e photo caption) = Inr True)"
  unfolding resp_ok_True
  by (auto simp: confirmed_def split: sum.splits option.splits json.splits)

lemma deliver_unconfirmed:
  assumes "\<not> confirmed e c"
  shows "fst (deliver e fs c P state) = fs \<and> exit_code (snd (deliver e fs c P state)) \<noteq> 0"
  using assms unfolding confirmed_iff
  by (auto simp: deliver_def split: sum.splits)

lemma deliver_confirmed:
  assumes "confirmed e c"
  shows "deliver e fs c P state =
           (case record_post e fs c P state of Inl err \<Rightarrow> (fs, Exit 0) | Inr fs' \<Rightarrow> (fs', Exit 0))"
  using assms unfolding confirmed_iff
  by (auto simp: deliver_def)

lemma record_post_Inr:
  assumes "record_post e fs c P state = Inr fs'"
  shows "\<exists>cid d. coupon_id e c = Inr cid \<and> state = JObj d \<and>
           fs' = fs(STATE_FILE e \<mapsto> json_dumps e
                   (JObj (dict_set
                      (dict_set d (u ''published_ids'')
                         (JList (map JInt (sorted_list_of_set (insert cid P)))))
                      (u ''last_run'') (JStr (now_iso e)))))"
proof -
  from assms obtain cid where cid: "coupon_id e c = Inr cid"
    by (auto simp: record_post_def split: sum.splits)
  from assms cid obtain d where d: "state = JObj d"
    by (cases state) (auto simp: record_post_def)
  from assms cid d show ?thesis
    by (auto simp: record_post_def save_state_def split: if_splits
             simp del: sorted_list_of_set_insert_remove)
qed

lemma main_Chosen:
  assumes "load_state e fs (STATE_FILE e) = Inr state"
    and "select_coupon e state = Inr (Chosen c P state')"
  shows "main e fs = deliver e fs c P state'"
  using assms by (simp add: main_def)

subsection \<open>What the selection depends on\<close>

lemma py_int_cong: "int_of_str e1 = int_of_str e2 \<Longrightarrow> py_int e1 = py_int e2"
proof
  fix v
  assume "int_of_str e1 = int_of_str e2"
  then show "py_int e1 v = py_int e2 v"
    by (cases v; cases "case v of JFloat f \<Rightarrow> f") simp_all
qed

lemma parse_cong: "date_parse e1 = date_parse e2 \<Longrightarrow> parse e1 = parse e2"
proof
  fix v
  assume "date_parse e1 = date_parse e2"
  then show "parse e1 v = parse e2 v"
    by (cases v) simp_all
qed

lemma is_valid_coupon_cong:
  assumes "int_of_str e1 = int_of_str e2" "date_parse e1 = date_parse e2" "now e1 = now e2"
  shows "is_valid_coupon e1 = is_valid_coupon e2"
  unfolding fun_eq_iff is_valid_coupon_def is_valid_coupon_body_def
    py_int_cong [OF assms(1)] parse_cong [OF assms(2)] assms(3)
  by simp

lemma sort_key_coupon_cong:
  assumes "date_parse e1 = date_parse e2" "now e1 = now e2"
  shows "sort_key_coupon e1 = sort_key_coupon e2"
  unfolding fun_eq_iff sort_key_coupon_def sort_key_body_def parse_cong [OF assms(1)] assms(2)
  by simp

lemma coupon_id_cong:
  assumes "int_of_str e1 = int_of_str e2"
  shows "coupon_id e1 = coupon_id e2"
  unfolding fun_eq_iff coupon_id_def py_int_cong [OF assms]
  by simp

lemma find_next_cong:
  assumes "int_of_str e1 = int_of_str e2"
  shows "find_next e1 P cs = find_next e2 P cs"
  by (induction cs) (simp_all add: coupon_id_cong [OF assms] cong: sum.case_cong if_cong)

lemma py_sorted_cong:
  assumes "date_parse e1 = date_parse e2" "now e1 = now e2"
  shows "py_sorted e1 cs = py_sorted e2 cs"
  unfolding py_sorted_def sort_key_coupon_cong [OF assms]
  by simp

lemma first_list_find:
  "first_list d = (case find is_list (map snd d) of Some (JList ys) \<Rightarrow> Some ys | _ \<Rightarrow> None)"
  by (induction d rule: first_list.induct) simp_all

subsection \<open>The concrete runs, evaluated\<close>

lemmas demo_defs =
  demo_env_def env_cycle_def env_ab_def env_bad_def
  demo_parse_def coupon_a_def coupon_b_def coupon_1_def coupon_2_def coupon_bad_def
  ack_ok_def ack_failed_def

lemma fetch_12: "fetch_coupons (env_cycle t) = [coupon_1, coupon_2]"
  by (simp add: env_cycle_def demo_env_def fetch_coupons_def)

lemma valid_12:
  "is_valid_coupon (env_cycle t) coupon_1" "is_valid_coupon (env_cycle t) coupon_2"
  by (simp_all add: demo_defs is_valid_coupon_def is_valid_coupon_body_def dict_get_def)

lemma truthy_12: "truthy coupon_1" "truthy coupon_2"
  by (simp_all add: coupon_1_def coupon_2_def)

lemma sorted_12:
  "py_sorted (env_cycle t) [coupon_1, coupon_2] = Inr [coupon_1, coupon_2]"
  by (simp add: demo_defs py_sorted_def sort_key_coupon_def sort_key_body_def dict_get_def
        py_or_def naive_def instant_def)

lemma ids_12:
  "coupon_id (env_cycle t) coupon_1 = Inr 1" "coupon_id (env_cycle t) coupon_2 = Inr 2"
  by (simp_all add: demo_defs coupon_id_def dict_get_def py_or_def)

lemma published_12: "published_of state_12 = Inr {1, 2}"
  by (simp add: state_12_def published_of_def dict_get_def)

lemma load_12: "load_state (env_cycle t) files_12 (STATE_FILE (env_cycle t)) = Inr state_12"
  by (simp add: load_state_def files_12_def env_cycle_def demo_env_def demo_loads_def)

lemma reset_12: "set_item state_12 (u ''published_ids'') (JList []) = Inr state_reset"
  by (simp add: state_12_def state_reset_def)

lemma select_12: "select_coupon (env_cycle t) state_12 = Inr (Chosen coupon_1 {} state_reset)"
  by (simp add: select_coupon_def Let_def published_12 fetch_12 valid_12 sorted_12 ids_12
        truthy_12 reset_12)

lemma record_12:
  "record_post (env_cycle t) files_12 coupon_1 {} state_reset =
     Inr (files_12(u ''state.json'' \<mapsto> json_dumps (env_cycle t) state_1))"
  by (simp add: record_post_def ids_12 save_state_def state_reset_def state_1_def)
     (simp add: env_cycle_def demo_env_def)

lemma confirmed_12:
  "confirmed env_cycle_ok coupon_1"
  "\<not> confirmed env_cycle_failed coupon_1"
  "\<not> confirmed env_cycle_empty coupon_1"
  "\<not> confirmed env_cycle_down coupon_1"
  by (simp_all add: confirmed_def photo_url_of_def post_def post_to_telegram_photo_def
        demo_defs dict_get_def py_or_def env_cycle_ok_def env_cycle_failed_def
        env_cycle_empty_def env_cycle_down_def ack_empty_def)

lemma main_12_failed: "main env_cycle_failed files_12 = (files_12, Exit 1)"
  unfolding env_cycle_failed_def
  by (simp add: main_def load_12 select_12 deliver_def)
     (simp add: photo_url_of_def post_def post_to_telegram_photo_def resp_ok_def demo_defs
        dict_get_def py_or_def)

lemma caption_1:
  "make_caption e coupon_1 =
     Inr (title_prefix @ u ''A'' @ [10, 10] @ footer ! 0 @ [10, 10] @ footer ! 2)"
  by (simp add: coupon_1_def parts_def caption_field_def dict_get_def py_or_def footer_def
       strip_def is_space_def truncate_def TELEGRAM_CAPTION_MAX_def title_prefix_def u_def)

lemma caption_long: "\<exists>s. make_caption e coupon_long = Inr s \<and> length s = 1000"
  by (simp add: coupon_long_def parts_def caption_field_def dict_get_def py_or_def footer_def
       strip_def is_space_def truncate_def TELEGRAM_CAPTION_MAX_def title_prefix_def u_def)

lemma select_ab:
  "n < 1893456000000000 \<Longrightarrow> published_of st = Inr {} \<Longrightarrow>
     selected (select_coupon (env_ab\<lparr>now := n, telegram := t\<rparr>) st) = Inr (Some coupon_a)"
  "1893456000000000 \<le> n \<Longrightarrow> n < 2208988800000000 \<Longrightarrow> published_of st = Inr {} \<Longrightarrow>
     selected (select_coupon (env_ab\<lparr>now := n, telegram := t\<rparr>) st) = Inr (Some coupon_b)"
  by (cases st; simp add: select_coupon_def Let_def fetch_coupons_def env_ab_def demo_env_def
        is_valid_coupon_def is_valid_coupon_body_def dict_get_def demo_parse_def
        coupon_a_def coupon_b_def instant_def py_sorted_def sort_key_coupon_def
        sort_key_body_def py_or_def naive_def coupon_id_def published_of_def)+

subsection \<open>Eligibility\<close>

text \<open>
  C1. \<^verbatim>\<open>is_valid_coupon\<close> is true exactly when the coupon is a dictionary whose
  \<^verbatim>\<open>is_visible\<close> (0 when missing), coerced by \<^verbatim>\<open>int\<close>, is 1, and whose \<^verbatim>\<open>expires_at\<close>
  is missing or empty (false in Python's sense) or parses to a timestamp that, read
  as UTC when it has no timezone, is strictly after the current instant. Whenever the
  body raises, the result is false.
\<close>

theorem is_valid_coupon_iff:
  "(is_valid_coupon e c \<longleftrightarrow>
     (\<exists>d. c = JObj d \<and> py_int e (dict_get d (u ''is_visible'') (JInt 0)) = Inr 1 \<and>
        (\<not> truthy (dict_get d (u ''expires_at'') JNull) \<or>
         (\<exists>dt. parse e (dict_get d (u ''expires_at'') JNull) = Inr dt \<and>
               now e < instant dt)))) \<and>
   (\<forall>err. is_valid_coupon_body e c = Inl err \<longrightarrow> \<not> is_valid_coupon e c)"
proof (cases c)
  case (JObj d)
  then show ?thesis
    by (auto simp: is_valid_coupon_def is_valid_coupon_body_def Let_def
             split: sum.splits if_splits)
qed (simp_all add: is_valid_coupon_def is_valid_coupon_body_def)

theorem is_valid_coupon_iff_witness:
  "is_valid_coupon demo_env coupon_a \<and>
   \<not> is_valid_coupon env_ab_later coupon_a \<and>
   is_valid_coupon demo_env coupon_1 \<and>
   \<not> is_valid_coupon demo_env coupon_hidden \<and>
   \<not> is_valid_coupon demo_env coupon_soon"
  using is_valid_coupon_iff [of demo_env coupon_a]
    is_valid_coupon_iff [of env_ab_later coupon_a]
    is_valid_coupon_iff [of demo_env coupon_1]
    is_valid_coupon_iff [of demo_env coupon_hidden]
    is_valid_coupon_iff [of demo_env coupon_soon]
  by (simp add: demo_defs env_ab_later_def coupon_hidden_def coupon_soon_def dict_get_def
        instant_def)

subsection \<open>Feed normalisation\<close>

text \<open>
  C6. \<^verbatim>\<open>fetch_coupons\<close> returns the decoded body itself when it is a list; the value
  under \<^verbatim>\<open>data\<close> when the body is a dictionary and that value is a list; otherwise the
  first value of the dictionary that is a list, and the empty list when there is none;
  the empty list for every other body, and the empty list when the request or the
  decoding failed.
\<close>

theorem fetch_coupons_cases:
  "(api_response e = None \<longrightarrow> fetch_coupons e = []) \<and>
   (api_response e = Some (JList xs) \<longrightarrow> fetch_coupons e = xs) \<and>
   (api_response e = Some (JObj d) \<and> map_of d (u ''data'') = Some (JList xs) \<longrightarrow>
      fetch_coupons e = xs) \<and>
   (api_response e = Some (JObj d) \<and> (\<forall>ys. map_of d (u ''data'') \<noteq> Some (JList ys)) \<longrightarrow>
      fetch_coupons e =
        (case find is_list (map snd d) of Some (JList ys) \<Rightarrow> ys | _ \<Rightarrow> [])) \<and>
   (api_response e = Some b \<and> \<not> is_list b \<and> (\<forall>d. b \<noteq> JObj d) \<longrightarrow> fetch_coupons e = [])"
proof -
  have scalar: "normalize b = []" if "\<not> is_list b" "\<forall>d. b \<noteq> JObj d"
    using that by (cases b) simp_all
  have other: "normalize (JObj d) =
      (case find is_list (map snd d) of Some (JList ys) \<Rightarrow> ys | _ \<Rightarrow> [])"
    if "\<forall>ys. map_of d (u ''data'') \<noteq> Some (JList ys)"
    using that by (auto simp: first_list_find split: option.splits json.splits)
  show ?thesis
    using scalar other by (auto simp: fetch_coupons_def)
qed

theorem fetch_coupons_cases_witness:
  "fetch_coupons demo_env = [] \<and>
   fetch_coupons env_ab = [coupon_a, coupon_b] \<and>
   fetch_coupons env_cycle_down = [coupon_1, coupon_2] \<and>
   fetch_coupons
     (demo_env\<lparr>api_response :=
        Some (JObj [(u ''data'', JStr (u ''none'')), (u ''status'', JInt 200),
                    (u ''items'', JList [coupon_1]), (u ''more'', JList [coupon_2])])\<rparr>) =
     [coupon_1] \<and>
   fetch_coupons (demo_env\<lparr>api_response := Some (JObj [(u ''status'', JInt 200)])\<rparr>) = [] \<and>
   fetch_coupons (demo_env\<lparr>api_response := Some (JStr (u ''maintenance''))\<rparr>) = []"
  using fetch_coupons_cases [of demo_env]
    fetch_coupons_cases [of env_ab "[coupon_a, coupon_b]"]
    fetch_coupons_cases [of env_cycle_down "[coupon_1, coupon_2]"
      "[(u ''data'', JList [coupon_1, coupon_2])]"]
    fetch_coupons_cases [of "demo_env\<lparr>api_response :=
        Some (JObj [(u ''data'', JStr (u ''none'')), (u ''status'', JInt 200),
                    (u ''items'', JList [coupon_1]), (u ''more'', JList [coupon_2])])\<rparr>" _
      "[(u ''data'', JStr (u ''none'')), (u ''status'', JInt 200),
        (u ''items'', JList [coupon_1]), (u ''more'', JList [coupon_2])]"]
    fetch_coupons_cases [of "demo_env\<lparr>api_response := Some (JObj [(u ''status'', JInt 200)])\<rparr>" _
      "[(u ''status'', JInt 200)]"]
    fetch_coupons_cases [of "demo_env\<lparr>api_response := Some (JStr (u ''maintenance''))\<rparr>" _ _
      "JStr (u ''maintenance'')"]
  by (simp add: demo_env_def env_ab_def env_cycle_def env_cycle_down_def)

subsection \<open>Caption length\<close>

text \<open>
  C3. For every coupon that is a dictionary, \<^verbatim>\<open>make_caption\<close> returns a caption of at
  most 1000 code points: the joined and stripped text itself, or, when that is longer
  than 1000, its first 997 code points followed by three dots.
\<close>

theorem make_caption_length:
  "\<exists>s. make_caption e (JObj d) = Inr s \<and> length s \<le> 1000 \<and>
     s = (let t = strip (join_lines (parts e d))
          in if length t > 1000 then take 997 t @ u ''...'' else t)"
  by (simp add: truncate_def TELEGRAM_CAPTION_MAX_def Let_def u_def)

theorem make_caption_length_witness:
  "(\<exists>s. make_caption demo_env coupon_long = Inr s \<and> length s = 1000) \<and>
   (\<exists>s. make_caption demo_env coupon_1 = Inr s \<and> length s = 70)"
  using make_caption_length [of demo_env "[(u ''title'', JStr (replicate 2000 65))]"]
    caption_long [of demo_env] caption_1 [of demo_env]
  by (simp add: title_prefix_def footer_def u_def)

subsection \<open>Loading and saving the state\<close>

text \<open>
  C9. Where the state file does not exist, \<^verbatim>\<open>load_state\<close> returns the fresh state
  (no published identifiers, \<^verbatim>\<open>last_run\<close> null) without an error; where it exists and
  its text does not decode, \<^verbatim>\<open>load_state\<close> raises, and \<^verbatim>\<open>main\<close> ends with that
  exception uncaught instead of going on with an empty state.
\<close>

theorem load_state_missing_or_corrupt:
  "(fs path = None \<longrightarrow>
      load_state e fs path =
        Inr (JObj [(u ''published_ids'', JList []), (u ''last_run'', JNull)])) \<and>
   (fs path = Some text \<and> json_loads e text = None \<longrightarrow>
      load_state e fs path = Inl JSONDecodeError) \<and>
   (fs (STATE_FILE e) = Some text \<and> json_loads e text = None \<longrightarrow>
      main e fs = (fs, Uncaught JSONDecodeError))"
  by (simp add: load_state_def fresh_state_def main_def)

theorem load_state_missing_or_corrupt_witness:
  "load_state demo_env Map.empty (u ''state.json'') =
     Inr (JObj [(u ''published_ids'', JList []), (u ''last_run'', JNull)]) \<and>
   load_state demo_env [u ''state.json'' \<mapsto> u ''{''] (u ''state.json'') = Inl JSONDecodeError \<and>
   main demo_env [u ''state.json'' \<mapsto> u ''{''] =
     ([u ''state.json'' \<mapsto> u ''{''], Uncaught JSONDecodeError)"
proof -
  have corrupt: "json_loads demo_env (u ''{'') = None"
    by (simp add: demo_env_def demo_loads_def state_12_text_def state_1_text_def u_def)
  have path: "STATE_FILE demo_env = u ''state.json''"
    by (simp add: demo_env_def)
  show ?thesis
    using load_state_missing_or_corrupt
      [of Map.empty "u ''state.json''" demo_env]
      load_state_missing_or_corrupt
      [of "[u ''state.json'' \<mapsto> u ''{'']" "u ''state.json''" demo_env "u ''{''"]
      corrupt path
    by simp
qed




subsection \<open>The cycle reset\<close>

text \<open>
  The reset is not persisted when the delivery fails: the feed lists coupons 1 and 2,
  the state file holds both identifiers, the selection resets and picks coupon 1, the
  gateway refuses, and the state file still holds identifiers 1 and 2 afterwards.
\<close>

theorem cycle_reset_not_persisted:
  "load_state env_cycle_failed files_12 (STATE_FILE env_cycle_failed) = Inr state_12 \<and>
   published_of state_12 = Inr {1, 2} \<and>
   py_sorted env_cycle_failed
     (filter (is_valid_coupon env_cycle_failed) (fetch_coupons env_cycle_failed)) =
     Inr [coupon_1, coupon_2] \<and>
   coupon_id env_cycle_failed coupon_1 = Inr 1 \<and>
   coupon_id env_cycle_failed coupon_2 = Inr 2 \<and>
   select_coupon env_cycle_failed state_12 = Inr (Chosen coupon_1 {} state_reset) \<and>
   published_of state_reset = Inr {} \<and>
   \<not> confirmed env_cycle_failed coupon_1 \<and>
   main env_cycle_failed files_12 = (files_12, Exit 1) \<and>
   load_state env_cycle_failed (fst (main env_cycle_failed files_12))
     (STATE_FILE env_cycle_failed) = Inr state_12 \<and>
   published_of state_12 \<noteq> Inr {}"
proof -
  have reset: "published_of state_reset = Inr {}"
    by (simp add: state_reset_def published_of_def dict_get_def)
  show ?thesis
    using confirmed_12(2) main_12_failed reset
    unfolding main_12_failed fst_conv
    unfolding env_cycle_failed_def
    by (simp add: load_12 published_12 fetch_12 valid_12 sorted_12 ids_12 select_12)
qed

text \<open>
  C2 (amended). Whenever the sorted eligible sequence is not empty and the identifier of
  every eligible coupon is in the published set, the selection clears the published set
  and the \<^verbatim>\<open>published_ids\<close> of the state in memory and selects the first coupon of the
  sorted sequence. The state file is not written by the reset: when the delivery is not
  confirmed the files are unchanged, and when it is confirmed and the state is saved,
  the saved published set holds the identifier of the selected coupon only.
\<close>

theorem cycle_reset_in_memory:
  assumes load: "load_state e fs (STATE_FILE e) = Inr state"
    and pub: "published_of state = Inr P"
    and srt: "py_sorted e (filter (is_valid_coupon e) (fetch_coupons e)) = Inr (c # cs)"
    and all: "\<forall>x\<in>set (c # cs). \<exists>cid. coupon_id e x = Inr cid \<and> cid \<in> P"
  shows "\<exists>state'. select_coupon e state = Inr (Chosen c {} state') \<and>
           published_of state' = Inr {} \<and>
           (\<not> confirmed e c \<longrightarrow> fst (main e fs) = fs) \<and>
           (\<forall>fs'. confirmed e c \<and> record_post e fs c {} state' = Inr fs' \<longrightarrow>
              main e fs = (fs', Exit 0) \<and>
              (\<exists>cid written. coupon_id e c = Inr cid \<and>
                 fs' (STATE_FILE e) = Some (json_dumps e written) \<and>
                 published_of written = Inr {cid}))"
proof -
  from select_coupon_reset [OF pub srt all] obtain d where d: "state = JObj d"
    and sel: "select_coupon e state =
      Inr (Chosen c {} (JObj (dict_set d (u ''published_ids'') (JList []))))"
    by blast
  let ?s = "JObj (dict_set d (u ''published_ids'') (JList []))"
  have main: "main e fs = deliver e fs c {} ?s"
    using load sel by (rule main_Chosen)
  have empty: "published_of ?s = Inr {}"
    by (simp add: published_of_def dict_get_dict_set)
  have failed: "fst (main e fs) = fs" if "\<not> confirmed e c"
    using deliver_unconfirmed [OF that] main by simp
  have ok: "main e fs = (fs', Exit 0) \<and>
      (\<exists>cid written. coupon_id e c = Inr cid \<and>
         fs' (STATE_FILE e) = Some (json_dumps e written) \<and> published_of written = Inr {cid})"
    if conf: "confirmed e c" and rec: "record_post e fs c {} ?s = Inr fs'" for fs'
  proof -
    from record_post_Inr [OF rec] obtain cid d' where cid: "coupon_id e c = Inr cid"
      and fs': "fs' = fs(STATE_FILE e \<mapsto> json_dumps e
                   (JObj (dict_set
                      (dict_set d' (u ''published_ids'')
                         (JList (map JInt (sorted_list_of_set (insert cid {})))))
                      (u ''last_run'') (JStr (now_iso e)))))"
      by blast
    let ?w = "JObj (dict_set (dict_set d' (u ''published_ids'') (JList [JInt cid]))
                 (u ''last_run'') (JStr (now_iso e)))"
    have "published_of ?w = Inr {cid}"
      by (simp add: published_of_def dict_get_dict_set)
    moreover have "fs' (STATE_FILE e) = Some (json_dumps e ?w)"
      using fs' by simp
    moreover have "main e fs = (fs', Exit 0)"
      using main deliver_confirmed [OF conf, of fs "{}" ?s] rec by simp
    ultimately show ?thesis
      using cid by blast
  qed
  show ?thesis
    using sel empty failed ok by blast
qed

theorem cycle_reset_in_memory_witness:
  "select_coupon env_cycle_ok state_12 = Inr (Chosen coupon_1 {} state_reset) \<and>
   published_of state_reset = Inr {} \<and>
   main env_cycle_ok files_12 = (files_12(u ''state.json'' \<mapsto> state_1_text), Exit 0) \<and>
   load_state env_cycle_ok (files_12(u ''state.json'' \<mapsto> state_1_text))
     (u ''state.json'') = Inr state_1 \<and>
   published_of state_1 = Inr {1} \<and>
   fst (main env_cycle_failed files_12) = files_12"
proof -
  have all: "\<forall>x\<in>set [coupon_1, coupon_2].
      \<exists>cid. coupon_id (env_cycle t) x = Inr cid \<and> cid \<in> {1, 2}" for t
    by (simp add: ids_12)
  have srt: "py_sorted (env_cycle t)
      (filter (is_valid_coupon (env_cycle t)) (fetch_coupons (env_cycle t))) =
      Inr [coupon_1, coupon_2]" for t
    by (simp add: fetch_12 valid_12 sorted_12)
  have pub: "published_of state_1 = Inr {1}" "published_of state_reset = Inr {}"
    by (simp_all add: state_1_def state_reset_def published_of_def dict_get_def)
  have codec: "json_dumps (env_cycle t) state_1 = state_1_text"
    "json_loads (env_cycle t) state_1_text = Some state_1" for t
    by (simp_all add: env_cycle_def demo_env_def demo_dumps_def demo_loads_def)
       (simp_all add: state_1_def state_12_def state_1_text_def state_12_text_def u_def)
  have load: "load_state (env_cycle t) (files_12(u ''state.json'' \<mapsto> state_1_text))
      (u ''state.json'') = Inr state_1" for t
    by (simp add: load_state_def codec)
  show ?thesis
    using cycle_reset_in_memory [OF load_12 published_12 srt all, of "\<lambda>r. Some ack_ok"]
      cycle_reset_in_memory [OF load_12 published_12 srt all, of "\<lambda>r. Some ack_failed"]
      confirmed_12 record_12 [of "\<lambda>r. Some ack_ok"] select_12 pub codec load
    unfolding env_cycle_ok_def env_cycle_failed_def
    by auto
qed

subsection \<open>Delivery failure\<close>

text \<open>
  C5. In every run in which a coupon was selected and the gateway does not confirm the
  post (the answer says no, has no \<^verbatim>\<open>ok\<close>, is not a dictionary, or the request
  raised), the files are left as they were and the exit code is not zero.
\<close>

theorem delivery_failure_keeps_state:
  assumes "load_state e fs (STATE_FILE e) = Inr state"
    and "select_coupon e state = Inr (Chosen c P state')"
    and "\<not> confirmed e c"
  shows "fst (main e fs) = fs \<and> exit_code (snd (main e fs)) \<noteq> 0"
  using deliver_unconfirmed [OF assms(3)] main_Chosen [OF assms(1,2)] by simp

theorem delivery_failure_keeps_state_witness:
  "select_coupon env_cycle_failed state_12 = Inr (Chosen coupon_1 {} state_reset) \<and>
   \<not> confirmed env_cycle_failed coupon_1 \<and>
   main env_cycle_failed files_12 = (files_12, Exit 1) \<and>
   \<not> confirmed env_cycle_empty coupon_1 \<and>
   fst (main env_cycle_empty files_12) = files_12 \<and>
   exit_code (snd (main env_cycle_empty files_12)) \<noteq> 0 \<and>
   \<not> confirmed env_cycle_down coupon_1 \<and>
   fst (main env_cycle_down files_12) = files_12 \<and>
   exit_code (snd (main env_cycle_down files_12)) \<noteq> 0"
  using delivery_failure_keeps_state [of env_cycle_failed files_12 state_12 coupon_1 "{}" state_reset]
    delivery_failure_keeps_state [of env_cycle_empty files_12 state_12 coupon_1 "{}" state_reset]
    delivery_failure_keeps_state [of env_cycle_down files_12 state_12 coupon_1 "{}" state_reset]
    confirmed_12 main_12_failed
    load_12 [of "\<lambda>r. Some ack_failed"] select_12 [of "\<lambda>r. Some ack_failed"]
    load_12 [of "\<lambda>r. Some ack_empty"] select_12 [of "\<lambda>r. Some ack_empty"]
    load_12 [of "\<lambda>r. None"] select_12 [of "\<lambda>r. None"]
  by (simp add: env_cycle_failed_def env_cycle_empty_def env_cycle_down_def)

subsection \<open>Sorting with a malformed date\<close>

text \<open>
  C7. The sort does raise: when one eligible coupon has a key without a timezone (a
  parsed date such as the default \<^verbatim>\<open>1970-01-01\<close>) and another has a date that does
  not parse, whose key is the aware \<^verbatim>\<open>datetime.now(timezone.utc)\<close>, sorting compares
  a naive with an aware value: the selection raises \<^verbatim>\<open>TypeError\<close> and \<^verbatim>\<open>main\<close> ends
  with it uncaught, the files unchanged.
\<close>

theorem sort_raises_on_malformed_date:
  assumes "load_state e fs (STATE_FILE e) = Inr state"
    and "published_of state = Inr P"
    and "c1 \<in> set (filter (is_valid_coupon e) (fetch_coupons e))"
    and "c2 \<in> set (filter (is_valid_coupon e) (fetch_coupons e))"
    and "naive (sort_key_coupon e c1)"
    and "sort_key_body e c2 = Inl err"
  shows "select_coupon e state = Inl TypeError \<and> main e fs = (fs, Uncaught TypeError)"
proof -
  have "\<not> naive (sort_key_coupon e c2)"
    using assms(6) by (simp add: sort_key_coupon_def naive_def)
  then have "py_sorted e (filter (is_valid_coupon e) (fetch_coupons e)) = Inl TypeError"
    using assms(3-5) by (intro py_sorted_mixed [of c1 _ c2])
  moreover have "filter (is_valid_coupon e) (fetch_coupons e) \<noteq> []" "fetch_coupons e \<noteq> []"
    using assms(3) by (auto simp: filter_empty_conv)
  ultimately have "select_coupon e state = Inl TypeError"
    using assms(2) by (simp add: select_coupon_def)
  then show ?thesis
    using assms(1) by (simp add: main_def)
qed

theorem sort_raises_on_malformed_date_witness:
  "sort_key_body env_bad coupon_bad = Inl ValueError \<and>
   naive (sort_key_coupon env_bad coupon_1) \<and>
   filter (is_valid_coupon env_bad) (fetch_coupons env_bad) = [coupon_1, coupon_bad] \<and>
   main env_bad Map.empty = (Map.empty, Uncaught TypeError)"
proof -
  have load: "load_state env_bad Map.empty (STATE_FILE env_bad) = Inr fresh_state"
    by (simp add: load_state_def)
  have pub: "published_of fresh_state = Inr {}"
    by (simp add: fresh_state_def published_of_def dict_get_def)
  have valid: "filter (is_valid_coupon env_bad) (fetch_coupons env_bad) = [coupon_1, coupon_bad]"
    by (simp add: demo_defs fetch_coupons_def is_valid_coupon_def is_valid_coupon_body_def
          dict_get_def)
  have bad: "sort_key_body env_bad coupon_bad = Inl ValueError"
    by (simp add: demo_defs sort_key_body_def dict_get_def)
  have good: "naive (sort_key_coupon env_bad coupon_1)"
    by (simp add: demo_defs sort_key_coupon_def sort_key_body_def dict_get_def py_or_def
          naive_def)
  show ?thesis
    using sort_raises_on_malformed_date [OF load pub _ _ good bad] valid bad good
    by simp
qed

subsection \<open>Determinism of the selection\<close>

text \<open>
  The selection depends on the clock: with the same feed and the same (empty) published
  set, coupon \<open>coupon_a\<close> is selected in 2024 and, after its expiry, \<open>coupon_b\<close> in 2035.
\<close>

theorem selection_depends_on_clock:
  "fetch_coupons env_ab_later = fetch_coupons env_ab \<and>
   published_of fresh_state = Inr {} \<and>
   now env_ab < now env_ab_later \<and>
   selected (select_coupon env_ab fresh_state) = Inr (Some coupon_a) \<and>
   selected (select_coupon env_ab_later fresh_state) = Inr (Some coupon_b) \<and>
   coupon_a \<noteq> coupon_b"
proof -
  have pub: "published_of fresh_state = Inr {}"
    by (simp add: fresh_state_def published_of_def dict_get_def)
  have a: "selected (select_coupon env_ab fresh_state) = Inr (Some coupon_a)"
    using select_ab(1) [of "now env_ab" fresh_state "telegram env_ab", OF _ pub]
    by (simp add: env_ab_def demo_env_def)
  have b: "selected (select_coupon env_ab_later fresh_state) = Inr (Some coupon_b)"
    using select_ab(2) [of 2051222400000000 fresh_state "telegram env_ab", OF _ _ pub]
    by (simp add: env_ab_later_def env_ab_def demo_env_def)
  show ?thesis
    using pub a b
    by (simp add: fetch_coupons_def coupon_a_def coupon_b_def env_ab_later_def env_ab_def
          demo_env_def)
qed

text \<open>
  C8 (amended). Two evaluations of the selection on the same feed, with the same
  published set and at the same current instant select the same coupon (or fail alike),
  whatever else differs between the two runs: the rest of the state, the gateway, the
  file system.
\<close>

theorem selection_deterministic:
  assumes "published_of st1 = Inr P" "published_of st2 = Inr P"
    and "api_response e1 = api_response e2"
    and "date_parse e1 = date_parse e2" "int_of_str e1 = int_of_str e2"
    and "now e1 = now e2"
  shows "selected (select_coupon e1 st1) = selected (select_coupon e2 st2)"
proof -
  from assms(1,2) obtain d1 d2 where d: "st1 = JObj d1" "st2 = JObj d2"
    by (auto dest!: published_of_JObj)
  have feed: "fetch_coupons e1 = fetch_coupons e2"
    using assms(3) by (simp add: fetch_coupons_def)
  have valid: "is_valid_coupon e1 = is_valid_coupon e2"
    by (rule is_valid_coupon_cong [OF assms(5) assms(4) assms(6)])
  have srt: "py_sorted e1 cs = py_sorted e2 cs" for cs
    using assms(4,6) by (rule py_sorted_cong)
  have nxt: "find_next e1 P cs = find_next e2 P cs" for cs
    using assms(5) by (rule find_next_cong)
  show ?thesis
    using assms(1,2) d
    by (simp add: select_coupon_def Let_def feed valid srt nxt
             split: sum.splits option.splits list.splits)
qed

theorem selection_deterministic_witness:
  "published_of fresh_state = Inr {} \<and> published_of state_empty = Inr {} \<and>
   fresh_state \<noteq> state_empty \<and>
   selected (select_coupon env_ab fresh_state) = Inr (Some coupon_a) \<and>
   selected (select_coupon env_ab_other state_empty) = Inr (Some coupon_a)"
proof -
  have pub: "published_of fresh_state = Inr {}" "published_of state_empty = Inr {}"
    by (simp_all add: fresh_state_def state_empty_def published_of_def dict_get_def)
  have a: "selected (select_coupon env_ab fresh_state) = Inr (Some coupon_a)"
    using select_ab(1) [of "now env_ab" fresh_state "telegram env_ab", OF _ pub(1)]
    by (simp add: env_ab_def demo_env_def)
  show ?thesis
    using selection_deterministic [OF pub, of env_ab env_ab_other] a pub
    by (simp add: env_ab_other_def fresh_state_def state_empty_def)
qed

subsection \<open>The recorded identifiers\<close>



end
